theory Spec2Isabelle
  imports Main "HOL-Library.Word" "HOL-Library.AList"
begin

section \<open>The PrecisionMedTwin contract\<close>

text \<open>
  A shallow embedding of \<^verbatim>\<open>contracts/PrecisionMedTwin.sol\<close>. Every external or public
  function of the contract is a HOL function from the storage before the call to either
  an error (the call reverts) or the storage after the call together with what the call
  gave to the outside world: the events it emitted and the decryption request it issued.
\<close>

subsection \<open>Value types\<close>

type_synonym uint256 = "256 word"
type_synonym uint32 = "32 word"
type_synonym bytes32 = "256 word"
type_synonym bytes = "8 word list"

text \<open>
  The library declares \<^verbatim>\<open>type euint32 is bytes32\<close>: an encrypted integer is a handle, and
  the handle of a storage slot never written is zero.
\<close>

type_synonym euint32 = "256 word"

text \<open>
  A reverted call. \<^verbatim>\<open>Require\<close> carries the message of the failed \<^verbatim>\<open>require\<close>,
  \<^verbatim>\<open>Panic\<close> the code of a compiler-inserted check (0x32: array index out of bounds,
  0x11: arithmetic overflow or underflow), the other two the failure of the library's
  signature check and of \<^verbatim>\<open>abi.decode\<close>.
\<close>

datatype error =
    Require string
  | Panic nat
  | SignatureCheckFailed
  | AbiDecodeFailed

subsection \<open>Structs and storage\<close>

record EncryptedHealthData =
  patientId :: uint256
  genomicData :: "euint32 list"
  cellularData :: "euint32 list"
  organData :: "euint32 list"
  biomarkers :: "euint32 list"
  timestamp :: uint256

record SimulationResult =
  diseaseRiskScore :: euint32
  drugResponse :: "euint32 list"
  isComplete :: bool

text \<open>
  The fields of \<^verbatim>\<open>DecryptedResult\<close> have the names of those of \<^verbatim>\<open>SimulationResult\<close> in the
  source; here the first two carry the prefix \<open>clear_\<close>.
\<close>

record DecryptedResult =
  clear_diseaseRiskScore :: uint32
  clear_drugResponse :: "uint32 list"
  isRevealed :: bool

text \<open>A Solidity mapping is total: a key never written holds the zero value of its type.\<close>

record contract_state =
  patientData :: "uint256 \<Rightarrow> EncryptedHealthData"
  simulationResults :: "uint256 \<Rightarrow> SimulationResult"
  decryptedResults :: "uint256 \<Rightarrow> DecryptedResult"
  genomicModelParams :: "euint32 list"
  cellularModelParams :: "euint32 list"
  organModelParams :: "euint32 list"
  requestToPatientId :: "uint256 \<Rightarrow> uint256"

definition zero_EncryptedHealthData :: EncryptedHealthData where
  "zero_EncryptedHealthData =
     \<lparr>patientId = 0, genomicData = [], cellularData = [], organData = [],
      biomarkers = [], timestamp = 0\<rparr>"

definition zero_SimulationResult :: SimulationResult where
  "zero_SimulationResult = \<lparr>diseaseRiskScore = 0, drugResponse = [], isComplete = False\<rparr>"

definition zero_DecryptedResult :: DecryptedResult where
  "zero_DecryptedResult =
     \<lparr>clear_diseaseRiskScore = 0, clear_drugResponse = [], isRevealed = False\<rparr>"

definition deployed :: contract_state where
  "deployed =
     \<lparr>patientData = (\<lambda>_. zero_EncryptedHealthData),
      simulationResults = (\<lambda>_. zero_SimulationResult),
      decryptedResults = (\<lambda>_. zero_DecryptedResult),
      genomicModelParams = [], cellularModelParams = [], organModelParams = [],
      requestToPatientId = (\<lambda>_. 0)\<rparr>"

subsection \<open>The outside world\<close>

text \<open>
  The contract calls the FHE library and the ABI decoder of the language. Neither is part
  of the repository, so what they compute is a parameter of the model: a record of the
  six functions the contract uses. \<open>FHE_requestDecryption\<close> is not among them: the
  identifier it hands back is an input of \<open>requestResultDecryption\<close> below.
\<close>

record fhe_library =
  FHE_asEuint32 :: "uint32 \<Rightarrow> euint32"
  FHE_add :: "euint32 \<Rightarrow> euint32 \<Rightarrow> euint32"
  FHE_mul :: "euint32 \<Rightarrow> euint32 \<Rightarrow> euint32"
  FHE_toBytes32 :: "euint32 \<Rightarrow> bytes32"
  FHE_checkSignatures :: "uint256 \<Rightarrow> bytes \<Rightarrow> bytes \<Rightarrow> bool"
  abi_decode_uint32_array :: "bytes \<Rightarrow> uint32 list option"

datatype selector = decryptSimulationResult_selector

datatype effect =
    DataSubmitted uint256 uint256
  | SimulationRequested uint256
  | SimulationCompleted uint256
  | ResultRevealed uint256
  | DecryptionRequested "bytes32 list" selector

type_synonym 'a outcome = "error + 'a"

text \<open>
  A transaction that reverts leaves the storage as it was; one that returns commits the
  storage it computed.
\<close>

definition commit :: "contract_state \<Rightarrow> (contract_state \<times> effect list) outcome \<Rightarrow> contract_state" where
  "commit s r = (case r of Inl _ \<Rightarrow> s | Inr (s', _) \<Rightarrow> s')"

subsection \<open>Checked array access\<close>

text \<open>Reading or writing an array outside its bounds panics with code 0x32.\<close>

definition read_at :: "'a list \<Rightarrow> nat \<Rightarrow> 'a outcome" where
  "read_at xs i = (if i < length xs then Inr (xs ! i) else Inl (Panic 0x32))"

definition write_at :: "'a list \<Rightarrow> nat \<Rightarrow> 'a \<Rightarrow> ('a list) outcome" where
  "write_at xs i v = (if i < length xs then Inr (xs[i := v]) else Inl (Panic 0x32))"

subsection \<open>State-changing functions\<close>

text \<open>
  The modifier \<^verbatim>\<open>onlyAuthorized\<close> consists of its placeholder \<^verbatim>\<open>_\<close> alone: a function that
  carries it runs its body and nothing else. A length or a loop counter is a natural
  number, since no array reaches the size at which the checked arithmetic of the counters
  would overflow.
\<close>

definition submitHealthData ::
  "uint256 \<Rightarrow> contract_state \<Rightarrow> uint256 \<Rightarrow> euint32 list \<Rightarrow> euint32 list \<Rightarrow> euint32 list \<Rightarrow>
   euint32 list \<Rightarrow> (contract_state \<times> effect list) outcome" where
  "submitHealthData block_timestamp s pid genomic cellular organ bio =
     Inr (s\<lparr>patientData := (patientData s)(pid :=
              \<lparr>patientId = pid, genomicData = genomic, cellularData = cellular,
               organData = organ, biomarkers = bio, timestamp = block_timestamp\<rparr>)\<rparr>,
          [DataSubmitted pid block_timestamp])"

definition setModelParameters ::
  "contract_state \<Rightarrow> euint32 list \<Rightarrow> euint32 list \<Rightarrow> euint32 list \<Rightarrow>
   (contract_state \<times> effect list) outcome" where
  "setModelParameters s genomicParams cellularParams organParams =
     Inr (s\<lparr>genomicModelParams := genomicParams, cellularModelParams := cellularParams,
            organModelParams := organParams\<rparr>, [])"

definition requestSimulation :: "contract_state \<Rightarrow> uint256 \<Rightarrow> (contract_state \<times> effect list) outcome" where
  "requestSimulation s pid =
     (if \<not> 0 < timestamp (patientData s pid) then Inl (Require ''Patient data not found'')
      else Inr (s, [SimulationRequested pid]))"

definition storeSimulationResult ::
  "contract_state \<Rightarrow> uint256 \<Rightarrow> euint32 \<Rightarrow> euint32 list \<Rightarrow> (contract_state \<times> effect list) outcome" where
  "storeSimulationResult s pid diseaseRisk drugResponses =
     Inr (s\<lparr>simulationResults := (simulationResults s)(pid :=
              \<lparr>diseaseRiskScore = diseaseRisk, drugResponse = drugResponses, isComplete = True\<rparr>),
            decryptedResults := (decryptedResults s)(pid :=
              \<lparr>clear_diseaseRiskScore = 0, clear_drugResponse = [], isRevealed = False\<rparr>)\<rparr>,
          [SimulationCompleted pid])"

text \<open>
  The loop of \<open>requestResultDecryption\<close>: \<^verbatim>\<open>ciphertexts[i+1] = FHE.toBytes32(result.drugResponse[i])\<close>
  for \<open>i\<close> from its start value up to the length of the stored vector.
\<close>

function flatten_loop ::
  "fhe_library \<Rightarrow> euint32 list \<Rightarrow> nat \<Rightarrow> bytes32 list \<Rightarrow> (bytes32 list) outcome" where
  "flatten_loop L dr i ciphertexts =
     (if i < length dr then
        (case read_at dr i of
           Inl e \<Rightarrow> Inl e
         | Inr h \<Rightarrow>
             (case write_at ciphertexts (i + 1) (FHE_toBytes32 L h) of
                Inl e \<Rightarrow> Inl e
              | Inr ciphertexts' \<Rightarrow> flatten_loop L dr (i + 1) ciphertexts'))
      else Inr ciphertexts)"
  by pat_completeness auto
termination
  by (relation "measure (\<lambda>(L, dr, i, ciphertexts). length dr - i)") auto

declare flatten_loop.simps [simp del]

text \<open>
  \<open>reqId\<close> is the identifier \<^verbatim>\<open>FHE.requestDecryption\<close> returned for this call. The request
  itself (the ciphertexts and the callback's selector) is the effect of the call.
\<close>

definition requestResultDecryption ::
  "fhe_library \<Rightarrow> contract_state \<Rightarrow> uint256 \<Rightarrow> uint256 \<Rightarrow> (contract_state \<times> effect list) outcome" where
  "requestResultDecryption L s pid reqId =
     (let result = simulationResults s pid in
      if \<not> isComplete result then Inl (Require ''Simulation not complete'')
      else if isRevealed (decryptedResults s pid) then Inl (Require ''Already revealed'')
      else
        (let totalElements = 1 + length (drugResponse result)
         in case write_at (replicate totalElements 0) 0 (FHE_toBytes32 L (diseaseRiskScore result)) of
              Inl e \<Rightarrow> Inl e
            | Inr ciphertexts0 \<Rightarrow>
                (case flatten_loop L (drugResponse result) 0 ciphertexts0 of
                   Inl e \<Rightarrow> Inl e
                 | Inr ciphertexts \<Rightarrow>
                     Inr (s\<lparr>requestToPatientId := (requestToPatientId s)(reqId := pid)\<rparr>,
                          [DecryptionRequested ciphertexts decryptSimulationResult_selector]))))"

text \<open>
  The loop of the callback: \<^verbatim>\<open>dResult.drugResponse[i-1] = results[i]\<close> for \<open>i\<close> from its start
  value up to the length of \<open>results\<close>.
\<close>

function copy_loop :: "uint32 list \<Rightarrow> nat \<Rightarrow> uint32 list \<Rightarrow> (uint32 list) outcome" where
  "copy_loop results i dr =
     (if i < length results then
        (case read_at results i of
           Inl e \<Rightarrow> Inl e
         | Inr v \<Rightarrow>
             (case write_at dr (i - 1) v of
                Inl e \<Rightarrow> Inl e
              | Inr dr' \<Rightarrow> copy_loop results (i + 1) dr'))
      else Inr dr)"
  by pat_completeness auto
termination
  by (relation "measure (\<lambda>(results, i, dr). length results - i)") auto

declare copy_loop.simps [simp del]

definition decryptSimulationResult ::
  "fhe_library \<Rightarrow> contract_state \<Rightarrow> uint256 \<Rightarrow> bytes \<Rightarrow> bytes \<Rightarrow>
   (contract_state \<times> effect list) outcome" where
  "decryptSimulationResult L s requestId cleartexts decryptionProof =
     (let pid = requestToPatientId s requestId in
      if \<not> pid \<noteq> 0 then Inl (Require ''Invalid request'')
      else
        (let dResult = decryptedResults s pid in
         if isRevealed dResult then Inl (Require ''Already revealed'')
         else if \<not> FHE_checkSignatures L requestId cleartexts decryptionProof then Inl SignatureCheckFailed
         else
           (case abi_decode_uint32_array L cleartexts of
              None \<Rightarrow> Inl AbiDecodeFailed
            | Some results \<Rightarrow>
                (case read_at results 0 of
                   Inl e \<Rightarrow> Inl e
                 | Inr r0 \<Rightarrow>
                     if length results < 1 then Inl (Panic 0x11)
                     else
                       (case copy_loop results 1 (replicate (length results - 1) 0) of
                          Inl e \<Rightarrow> Inl e
                        | Inr dr \<Rightarrow>
                            Inr (s\<lparr>decryptedResults := (decryptedResults s)(pid :=
                                     dResult\<lparr>clear_diseaseRiskScore := r0,
                                             clear_drugResponse := dr,
                                             isRevealed := True\<rparr>)\<rparr>,
                                 [ResultRevealed pid]))))))"

subsection \<open>Views\<close>

text \<open>
  The loop shared by the two predictions: for \<open>i\<close> below the length of the model
  parameters, the product is added only where \<open>i\<close> is also below the length of the data.
\<close>

function genomic_loop ::
  "fhe_library \<Rightarrow> euint32 list \<Rightarrow> euint32 list \<Rightarrow> nat \<Rightarrow> euint32 \<Rightarrow> euint32 outcome" where
  "genomic_loop L params gdata i acc =
     (if i < length params then
        (if i < length gdata then
           (case read_at params i of
              Inl e \<Rightarrow> Inl e
            | Inr p \<Rightarrow>
                (case read_at gdata i of
                   Inl e \<Rightarrow> Inl e
                 | Inr d \<Rightarrow> genomic_loop L params gdata (i + 1) (FHE_add L acc (FHE_mul L p d))))
         else genomic_loop L params gdata (i + 1) acc)
      else Inr acc)"
  by pat_completeness auto
termination
  by (relation "measure (\<lambda>(L, params, gdata, i, acc). length params - i)") auto

declare genomic_loop.simps [simp del]

definition predictDiseaseRisk :: "fhe_library \<Rightarrow> contract_state \<Rightarrow> uint256 \<Rightarrow> euint32 outcome" where
  "predictDiseaseRisk L s pid =
     (let d = patientData s pid in
      if \<not> 0 < timestamp d then Inl (Require ''Patient data not found'')
      else genomic_loop L (genomicModelParams s) (genomicData d) 0 (FHE_asEuint32 L 0))"

definition predictDrugResponse ::
  "fhe_library \<Rightarrow> contract_state \<Rightarrow> uint256 \<Rightarrow> uint256 \<Rightarrow> euint32 outcome" where
  "predictDrugResponse L s pid drugIndex =
     (let d = patientData s pid in
      if \<not> 0 < timestamp d then Inl (Require ''Patient data not found'')
      else
        (case genomic_loop L (genomicModelParams s) (genomicData d) 0 (FHE_asEuint32 L 0) of
           Inl e \<Rightarrow> Inl e
         | Inr response \<Rightarrow>
             if unat drugIndex < length (biomarkers d) then
               (case read_at (biomarkers d) (unat drugIndex) of
                  Inl e \<Rightarrow> Inl e
                | Inr b \<Rightarrow> Inr (FHE_add L response b))
             else Inr response))"

definition getEncryptedHealthData ::
  "contract_state \<Rightarrow> uint256 \<Rightarrow> (euint32 list \<times> euint32 list \<times> euint32 list \<times> euint32 list) outcome" where
  "getEncryptedHealthData s pid =
     (let d = patientData s pid in
      if \<not> 0 < timestamp d then Inl (Require ''Patient data not found'')
      else Inr (genomicData d, cellularData d, organData d, biomarkers d))"

definition getEncryptedSimulationResult ::
  "contract_state \<Rightarrow> uint256 \<Rightarrow> (euint32 \<times> euint32 list) outcome" where
  "getEncryptedSimulationResult s pid =
     (let r = simulationResults s pid in
      if \<not> isComplete r then Inl (Require ''Simulation not complete'')
      else Inr (diseaseRiskScore r, drugResponse r))"

definition getDecryptedSimulationResult ::
  "contract_state \<Rightarrow> uint256 \<Rightarrow> (uint32 \<times> uint32 list \<times> bool) outcome" where
  "getDecryptedSimulationResult s pid =
     (let r = decryptedResults s pid in
      Inr (clear_diseaseRiskScore r, clear_drugResponse r, isRevealed r))"

definition updateGenomicModel :: "contract_state \<Rightarrow> euint32 list \<Rightarrow> (contract_state \<times> effect list) outcome" where
  "updateGenomicModel s newParams = Inr (s\<lparr>genomicModelParams := newParams\<rparr>, [])"

definition updateCellularModel :: "contract_state \<Rightarrow> euint32 list \<Rightarrow> (contract_state \<times> effect list) outcome" where
  "updateCellularModel s newParams = Inr (s\<lparr>cellularModelParams := newParams\<rparr>, [])"

definition updateOrganModel :: "contract_state \<Rightarrow> euint32 list \<Rightarrow> (contract_state \<times> effect list) outcome" where
  "updateOrganModel s newParams = Inr (s\<lparr>organModelParams := newParams\<rparr>, [])"

subsection \<open>Transactions\<close>

text \<open>
  The state-changing entry points as data, so that a history of the contract is a list of
  calls. The views are left out: they return a value and write nothing.
  \<open>Call_submitHealthData\<close> carries the timestamp of its block,
  \<open>Call_requestResultDecryption\<close> the request identifier the library returned.
\<close>

datatype call =
    Call_submitHealthData uint256 uint256 "euint32 list" "euint32 list" "euint32 list" "euint32 list"
  | Call_setModelParameters "euint32 list" "euint32 list" "euint32 list"
  | Call_requestSimulation uint256
  | Call_storeSimulationResult uint256 euint32 "euint32 list"
  | Call_requestResultDecryption uint256 uint256
  | Call_decryptSimulationResult uint256 bytes bytes
  | Call_updateGenomicModel "euint32 list"
  | Call_updateCellularModel "euint32 list"
  | Call_updateOrganModel "euint32 list"

fun perform :: "fhe_library \<Rightarrow> contract_state \<Rightarrow> call \<Rightarrow> (contract_state \<times> effect list) outcome" where
  "perform L s (Call_submitHealthData ts pid g c organ b) = submitHealthData ts s pid g c organ b"
| "perform L s (Call_setModelParameters g c organ) = setModelParameters s g c organ"
| "perform L s (Call_requestSimulation pid) = requestSimulation s pid"
| "perform L s (Call_storeSimulationResult pid risk drs) = storeSimulationResult s pid risk drs"
| "perform L s (Call_requestResultDecryption pid reqId) = requestResultDecryption L s pid reqId"
| "perform L s (Call_decryptSimulationResult reqId cleartexts decryptionProof) =
     decryptSimulationResult L s reqId cleartexts decryptionProof"
| "perform L s (Call_updateGenomicModel ps) = updateGenomicModel s ps"
| "perform L s (Call_updateCellularModel ps) = updateCellularModel s ps"
| "perform L s (Call_updateOrganModel ps) = updateOrganModel s ps"

definition transact :: "fhe_library \<Rightarrow> contract_state \<Rightarrow> call \<Rightarrow> contract_state" where
  "transact L s c = commit s (perform L s c)"

definition run :: "fhe_library \<Rightarrow> contract_state \<Rightarrow> call list \<Rightarrow> contract_state" where
  "run L s cs = foldl (transact L) s cs"

subsection \<open>A library that does not encrypt\<close>

text \<open>
  One instance of the outside world, for running the model on concrete inputs: a handle
  is the value itself, addition and multiplication are those of the handle's type, a
  proof is accepted when it is not empty, and the cleartext carries one value per byte.
\<close>

definition plain_library :: fhe_library where
  "plain_library =
     \<lparr>FHE_asEuint32 = ucast, FHE_add = (+), FHE_mul = (*), FHE_toBytes32 = id,
      FHE_checkSignatures = (\<lambda>requestId cleartexts decryptionProof. decryptionProof \<noteq> []),
      abi_decode_uint32_array = (\<lambda>cleartexts. Some (map ucast cleartexts))\<rparr>"

text \<open>Which calls write the simulation result of a patient, and which bind a request identifier.\<close>

fun stores_result_for :: "uint256 \<Rightarrow> call \<Rightarrow> bool" where
  "stores_result_for p (Call_storeSimulationResult pid risk drs) = (pid = p)"
| "stores_result_for p c = False"

fun binds_request :: "uint256 \<Rightarrow> call \<Rightarrow> bool" where
  "binds_request r (Call_requestResultDecryption pid reqId) = (reqId = r)"
| "binds_request r c = False"

subsection \<open>A concrete history\<close>

text \<open>
  Patient 1 submits two genomic values and two biomarkers, the model gets three genomic
  parameters, a simulation result with two drug responses is stored, its decryption is
  requested under identifier 7, and the callback delivers three values.
\<close>

definition with_data :: contract_state where
  "with_data = run plain_library deployed
     [Call_submitHealthData 1000 1 [2, 3] [] [] [10, 20], Call_setModelParameters [4, 5, 6] [] []]"

definition simulated :: contract_state where
  "simulated = run plain_library with_data [Call_storeSimulationResult 1 40 [41, 42]]"

definition requested :: contract_state where
  "requested = run plain_library simulated [Call_requestResultDecryption 1 7]"

definition revealed :: contract_state where
  "revealed = run plain_library requested [Call_decryptSimulationResult 7 [9, 8, 7] [1]]"

text \<open>A second history: a simulation result is stored for patient 0 and its decryption requested.\<close>

definition zero_simulated :: contract_state where
  "zero_simulated = run plain_library deployed [Call_storeSimulationResult 0 40 [41]]"

definition zero_requested :: contract_state where
  "zero_requested = run plain_library zero_simulated [Call_requestResultDecryption 0 5]"

section \<open>The web front end\<close>

text \<open>
  A shallow embedding of \<open>submitTwin\<close> and \<open>activateTwin\<close> of \<^verbatim>\<open>frontend/web/src/App.tsx\<close>.
  Each takes the record store before the call and returns the store after it with the
  notice shown to the user: what was written before an exception stays written.
\<close>

subsection \<open>Values of the runtime\<close>

text \<open>
  A parsed JSON document. An object is the list of its properties in enumeration order;
  the numbers the front end writes are integers.
\<close>

datatype json =
    JNull
  | JBool bool
  | JNum int
  | JStr string
  | JArr "json list"
  | JObj "(string \<times> json) list"

text \<open>
  What the \<^verbatim>\<open>catch\<close> of the two functions can receive: \<^verbatim>\<open>new Error(message)\<close> thrown by the
  function itself, the exceptions of \<^verbatim>\<open>JSON.parse\<close>, of a method call on a value that has
  no such method, of \<^verbatim>\<open>btoa\<close> and of \<^verbatim>\<open>ethers.toUtf8String\<close>, and a rejected contract call.
\<close>

datatype js_exception =
    Error string
  | SyntaxError
  | TypeError
  | InvalidCharacterError
  | InvalidUtf8
  | CallRejected

datatype notice =
    Alerted string
  | Failed js_exception
  | Succeeded string

text \<open>
  The session and the runtime, neither of which the repository defines: whether a wallet
  is connected and which account it has, whether \<^verbatim>\<open>getContractWithSigner\<close> yields a contract,
  which reads and writes the chain lets through, and the builtins \<^verbatim>\<open>JSON.stringify\<close>,
  \<^verbatim>\<open>JSON.parse\<close>, \<^verbatim>\<open>btoa\<close>, \<^verbatim>\<open>ethers.toUtf8Bytes\<close> and \<^verbatim>\<open>ethers.toUtf8String\<close> (\<open>None\<close> where the
  builtin throws).
\<close>

record browser =
  provider :: bool
  account :: string
  signer_contract :: bool
  chain_reads :: "string \<Rightarrow> bool"
  chain_writes :: "string \<Rightarrow> bytes \<Rightarrow> bool"
  JSON_stringify :: "json \<Rightarrow> string"
  JSON_parse :: "string \<Rightarrow> json option"
  btoa :: "string \<Rightarrow> string option"
  toUtf8Bytes :: "string \<Rightarrow> bytes"
  toUtf8String :: "bytes \<Rightarrow> string option"

text \<open>The state \<^verbatim>\<open>newTwinData\<close> of the creation form.\<close>

record new_twin_form =
  scale :: string
  description :: string
  healthData :: string

subsection \<open>The record store\<close>

text \<open>
  The store is a mapping from string keys to byte blobs; the contract that holds it and
  the module that binds it are not among the sources.
\<close>

type_synonym record_store = "string \<Rightarrow> bytes"

text \<open>
  Modelled from the spec: \<^verbatim>\<open>getData(key)\<close> of the record store, missing from the sources.
  The spec has it return the blob stored under the key, and the empty blob for an absent
  key.
\<close>

definition getData :: "record_store \<Rightarrow> string \<Rightarrow> bytes" where
  "getData st key = st key"

text \<open>
  Modelled from the spec: \<^verbatim>\<open>setData(key, bytes)\<close> of the record store, missing from the
  sources. The spec has it overwrite the blob under the key unconditionally and leave
  every other key alone.
\<close>

definition setData :: "record_store \<Rightarrow> string \<Rightarrow> bytes \<Rightarrow> record_store" where
  "setData st key v = st(key := v)"

text \<open>
  Modelled from the spec: the store in which nothing has been written, every key absent.
\<close>

definition empty_store :: record_store where
  "empty_store = (\<lambda>key. [])"

subsection \<open>Twin identifiers and records\<close>

text \<open>The decimal digits of a natural number, as a template literal prints \<^verbatim>\<open>Date.now()\<close>.\<close>

definition digit_char :: "nat \<Rightarrow> char" where
  "digit_char d = ''0123456789'' ! d"

function decimal :: "nat \<Rightarrow> string" where
  "decimal n = (if n < 10 then [digit_char n] else decimal (n div 10) @ [digit_char (n mod 10)])"
  by pat_completeness auto
termination
  by (relation "measure (\<lambda>n. n)") auto

declare decimal.simps [simp del]

text \<open>
  The own enumerable properties an object spread copies: those of an object, the indexed
  elements of an array or of a string, none of any other value.
\<close>

fun spread :: "json \<Rightarrow> (string \<times> json) list" where
  "spread (JObj props) = props"
| "spread (JArr xs) = zip (map decimal [0 ..< length xs]) xs"
| "spread (JStr s) = zip (map decimal [0 ..< length s]) (map (\<lambda>c. JStr [c]) s)"
| "spread v = []"

text \<open>The object literal \<^verbatim>\<open>{data, timestamp, owner, scale, status}\<close>.\<close>

definition twin_record :: "string \<Rightarrow> int \<Rightarrow> string \<Rightarrow> string \<Rightarrow> string \<Rightarrow> json" where
  "twin_record d ts own sc status =
     JObj [(''data'', JStr d), (''timestamp'', JNum ts), (''owner'', JStr own),
           (''scale'', JStr sc), (''status'', JStr status)]"

text \<open>The form state as the value handed to \<^verbatim>\<open>JSON.stringify\<close>.\<close>

definition form_json :: "new_twin_form \<Rightarrow> json" where
  "form_json f =
     JObj [(''scale'', JStr (scale f)), (''description'', JStr (description f)),
           (''healthData'', JStr (healthData f))]"

subsection \<open>Creating and activating a twin\<close>

text \<open>
  \<open>now_id\<close> and \<open>now_stamp\<close> are the two readings of \<^verbatim>\<open>Date.now()\<close>, \<open>suffix\<close> is
  \<^verbatim>\<open>Math.random().toString(36).substring(2, 9)\<close>.
\<close>

definition submitTwin ::
  "browser \<Rightarrow> record_store \<Rightarrow> new_twin_form \<Rightarrow> nat \<Rightarrow> string \<Rightarrow> nat \<Rightarrow> record_store \<times> notice" where
  "submitTwin B st newTwinData now_id suffix now_stamp =
     (if \<not> provider B then (st, Alerted ''Please connect wallet first'')
      else
        (case btoa B (JSON_stringify B (form_json newTwinData)) of
           None \<Rightarrow> (st, Failed InvalidCharacterError)
         | Some b64 \<Rightarrow>
             (let encryptedData = ''FHE-'' @ b64 in
              if \<not> signer_contract B then (st, Failed (Error ''Failed to get contract with signer''))
              else
                (let twinId = decimal now_id @ ''-'' @ suffix;
                     twinData = twin_record encryptedData (int (now_stamp div 1000)) (account B)
                                  (scale newTwinData) ''pending'';
                     key = ''twin_'' @ twinId;
                     val = toUtf8Bytes B (JSON_stringify B twinData)
                 in if \<not> chain_writes B key val then (st, Failed CallRejected)
                    else
                      (let st1 = setData st key val in
                       if \<not> chain_reads B ''twin_keys'' then (st1, Failed CallRejected)
                       else
                         (let keysBytes = getData st1 ''twin_keys'';
                              keys = (if 0 < length keysBytes then
                                        (case toUtf8String B keysBytes of
                                           None \<Rightarrow> JArr []
                                         | Some str \<Rightarrow>
                                             (case JSON_parse B str of None \<Rightarrow> JArr [] | Some v \<Rightarrow> v))
                                      else JArr [])
                          in case keys of
                               JArr ks \<Rightarrow>
                                 (let val2 = toUtf8Bytes B (JSON_stringify B (JArr (ks @ [JStr twinId])))
                                  in if \<not> chain_writes B ''twin_keys'' val2 then (st1, Failed CallRejected)
                                     else (setData st1 ''twin_keys'' val2,
                                           Succeeded ''Encrypted health data submitted securely!''))
                             | _ \<Rightarrow> (st1, Failed TypeError)))))))"

definition activateTwin :: "browser \<Rightarrow> record_store \<Rightarrow> string \<Rightarrow> record_store \<times> notice" where
  "activateTwin B st twinId =
     (if \<not> provider B then (st, Alerted ''Please connect wallet first'')
      else if \<not> signer_contract B then (st, Failed (Error ''Failed to get contract with signer''))
      else
        (let key = ''twin_'' @ twinId in
         if \<not> chain_reads B key then (st, Failed CallRejected)
         else
           (let twinBytes = getData st key in
            if length twinBytes = 0 then (st, Failed (Error ''Twin not found''))
            else
              (case toUtf8String B twinBytes of
                 None \<Rightarrow> (st, Failed InvalidUtf8)
               | Some str \<Rightarrow>
                   (case JSON_parse B str of
                      None \<Rightarrow> (st, Failed SyntaxError)
                    | Some twinData \<Rightarrow>
                        (let updatedTwin = JObj (AList.update ''status'' (JStr ''active'') (spread twinData));
                             val = toUtf8Bytes B (JSON_stringify B updatedTwin)
                         in if \<not> chain_writes B key val then (st, Failed CallRejected)
                            else (setData st key val,
                                  Succeeded ''FHE activation completed successfully!'')))))))"

subsection \<open>A browser for running the front end\<close>

text \<open>
  One instance of the session and runtime, for running the model on concrete inputs:
  a connected wallet, a chain that lets every call through, a printer of compact JSON
  (strings are not escaped), a parser that knows the documents of a given list, a \<open>btoa\<close>
  that leaves the text as it is, and bytes that are the characters of the string.
\<close>

definition commas :: "string list \<Rightarrow> string" where
  "commas parts = concat (case parts of [] \<Rightarrow> [] | p # ps \<Rightarrow> p # map (\<lambda>q. '','' @ q) ps)"

definition quoted :: "string \<Rightarrow> string" where
  "quoted s = CHR 0x22 # s @ [CHR 0x22]"

fun compact_json :: "json \<Rightarrow> string" where
  "compact_json JNull = ''null''"
| "compact_json (JBool b) = (if b then ''true'' else ''false'')"
| "compact_json (JNum i) = (if i < 0 then ''-'' @ decimal (nat (- i)) else decimal (nat i))"
| "compact_json (JStr s) = quoted s"
| "compact_json (JArr xs) = ''['' @ commas (map compact_json xs) @ '']''"
| "compact_json (JObj props) =
     ''{'' @ commas (map (\<lambda>kv. quoted (fst kv) @ '':'' @ compact_json (snd kv)) props) @ ''}''"

definition parse_known :: "json list \<Rightarrow> string \<Rightarrow> json option" where
  "parse_known docs s = map_of (map (\<lambda>v. (compact_json v, v)) docs) s"

definition example_form :: new_twin_form where
  "example_form = \<lparr>scale = ''gene'', description = ''BRCA panel'', healthData = ''ACGT''\<rparr>"

definition test_browser :: browser where
  "test_browser =
     \<lparr>provider = True, account = ''0xA11CE'', signer_contract = True,
      chain_reads = (\<lambda>key. True), chain_writes = (\<lambda>key val. True),
      JSON_stringify = compact_json,
      JSON_parse = parse_known
        [twin_record (''FHE-'' @ compact_json (form_json example_form)) 1700000000 ''0xA11CE''
           ''gene'' ''pending''],
      btoa = Some,
      toUtf8Bytes = map (\<lambda>c. of_nat (of_char c)),
      toUtf8String = (\<lambda>bs. Some (map (\<lambda>b. char_of (unat b)) bs))\<rparr>"

definition example_created :: record_store where
  "example_created =
     fst (submitTwin test_browser empty_store example_form 1700000000123 ''k3j9x2a'' 1700000000456)"

definition example_activated :: record_store where
  "example_activated = fst (activateTwin test_browser example_created ''1700000000123-k3j9x2a'')"


section \<open>The loops\<close>

lemma genomic_loop_foldl:
  "genomic_loop L params gdata i acc =
     Inr (foldl (\<lambda>a k. FHE_add L a (FHE_mul L (params ! k) (gdata ! k))) acc
            [i ..< min (length params) (length gdata)])"
proof (induction L params gdata i acc rule: genomic_loop.induct)
  case (1 L params gdata i acc)
  show ?case
  proof (cases "i < length params")
    case False
    then show ?thesis by (subst genomic_loop.simps) simp
  next
    case inP: True
    show ?thesis
    proof (cases "i < length gdata")
      case True
      with inP have "[i ..< min (length params) (length gdata)] = i # [i + 1 ..< min (length params) (length gdata)]"
        by (simp add: upt_conv_Cons)
      with inP True "1.IH"(1) [OF inP True, of "params ! i" "gdata ! i"] show ?thesis
        by (subst genomic_loop.simps) (simp add: read_at_def)
    next
      case False
      with inP "1.IH"(2) show ?thesis
        by (subst genomic_loop.simps) simp
    qed
  qed
qed

lemma zip_as_indices:
  "zip xs ys = map (\<lambda>k. (xs ! k, ys ! k)) [0 ..< min (length xs) (length ys)]"
  by (rule nth_equalityI) simp_all

lemma copy_loop_tail:
  "1 \<le> i \<Longrightarrow> length dr = length results - 1 \<Longrightarrow>
   copy_loop results i dr = Inr (take (i - 1) dr @ drop i results)"
proof (induction results i dr rule: copy_loop.induct)
  case (1 results i dr)
  show ?case
  proof (cases "i < length results")
    case False
    with "1.prems" show ?thesis by (subst copy_loop.simps) simp
  next
    case True
    with "1.prems" have w: "write_at dr (i - 1) (results ! i) = Inr (dr[i - 1 := results ! i])"
      by (simp add: write_at_def)
    have r: "read_at results i = Inr (results ! i)"
      using True by (simp add: read_at_def)
    have "copy_loop results (i + 1) (dr[i - 1 := results ! i]) =
            Inr (take (i + 1 - 1) (dr[i - 1 := results ! i]) @ drop (i + 1) results)"
      using "1.IH" [OF True r w] "1.prems" by simp
    moreover have "take i (dr[i - 1 := results ! i]) = take (i - 1) dr @ [results ! i]"
      using True "1.prems" by (cases i) (simp_all add: take_Suc_conv_app_nth)
    moreover have "drop i results = results ! i # drop (i + 1) results"
      using True by (simp add: Cons_nth_drop_Suc)
    ultimately show ?thesis
      using True r w by (subst copy_loop.simps) simp
  qed
qed

lemma flatten_loop_map:
  "length cts = Suc (length dr) \<Longrightarrow>
   flatten_loop L dr i cts = Inr (take (Suc i) cts @ map (FHE_toBytes32 L) (drop i dr))"
proof (induction L dr i cts rule: flatten_loop.induct)
  case (1 L dr i cts)
  show ?case
  proof (cases "i < length dr")
    case False
    with "1.prems" show ?thesis by (subst flatten_loop.simps) simp
  next
    case True
    have r: "read_at dr i = Inr (dr ! i)"
      using True by (simp add: read_at_def)
    have w: "write_at cts (i + 1) (FHE_toBytes32 L (dr ! i)) = Inr (cts[i + 1 := FHE_toBytes32 L (dr ! i)])"
      using True "1.prems" by (simp add: write_at_def)
    have "flatten_loop L dr (i + 1) (cts[i + 1 := FHE_toBytes32 L (dr ! i)]) =
            Inr (take (Suc (i + 1)) (cts[i + 1 := FHE_toBytes32 L (dr ! i)]) @
                 map (FHE_toBytes32 L) (drop (i + 1) dr))"
      using "1.IH" [OF True r w] "1.prems" by simp
    moreover have "take (Suc (i + 1)) (cts[i + 1 := FHE_toBytes32 L (dr ! i)]) =
                   take (Suc i) cts @ [FHE_toBytes32 L (dr ! i)]"
      using True "1.prems" by (simp add: take_Suc_conv_app_nth)
    moreover have "drop i dr = dr ! i # drop (i + 1) dr"
      using True by (simp add: Cons_nth_drop_Suc)
    ultimately show ?thesis
      using True r w by (subst flatten_loop.simps) simp
  qed
qed

text \<open>What the two state-changing functions with loops compute, the loops resolved.\<close>

lemma requestResultDecryption_eq:
  "requestResultDecryption L s pid reqId =
     (if \<not> isComplete (simulationResults s pid) then Inl (Require ''Simulation not complete'')
      else if isRevealed (decryptedResults s pid) then Inl (Require ''Already revealed'')
      else Inr (s\<lparr>requestToPatientId := (requestToPatientId s)(reqId := pid)\<rparr>,
                [DecryptionRequested
                   (FHE_toBytes32 L (diseaseRiskScore (simulationResults s pid)) #
                    map (FHE_toBytes32 L) (drugResponse (simulationResults s pid)))
                   decryptSimulationResult_selector]))"
  by (simp add: requestResultDecryption_def Let_def write_at_def flatten_loop_map)

lemma DecryptedResult_all_fields:
  "(r :: DecryptedResult)\<lparr>clear_diseaseRiskScore := a, clear_drugResponse := b, isRevealed := c\<rparr> =
   \<lparr>clear_diseaseRiskScore = a, clear_drugResponse = b, isRevealed = c\<rparr>"
  by (cases r) simp

lemma decryptSimulationResult_eq:
  "decryptSimulationResult L s requestId cleartexts decryptionProof =
     (if requestToPatientId s requestId = 0 then Inl (Require ''Invalid request'')
      else if isRevealed (decryptedResults s (requestToPatientId s requestId))
        then Inl (Require ''Already revealed'')
      else if \<not> FHE_checkSignatures L requestId cleartexts decryptionProof
        then Inl SignatureCheckFailed
      else
        (case abi_decode_uint32_array L cleartexts of
           None \<Rightarrow> Inl AbiDecodeFailed
         | Some [] \<Rightarrow> Inl (Panic 0x32)
         | Some (r0 # rest) \<Rightarrow>
             Inr (s\<lparr>decryptedResults := (decryptedResults s)(requestToPatientId s requestId :=
                      \<lparr>clear_diseaseRiskScore = r0, clear_drugResponse = rest, isRevealed = True\<rparr>)\<rparr>,
                  [ResultRevealed (requestToPatientId s requestId)])))"
  by (simp add: decryptSimulationResult_def Let_def read_at_def copy_loop_tail
      DecryptedResult_all_fields
      split: option.split list.split)

section \<open>Running a history\<close>

lemma run_Nil: "run L s [] = s"
  by (simp add: run_def)

lemma run_Cons: "run L s (c # cs) = run L (transact L s c) cs"
  by (simp add: run_def)

lemmas entry_defs =
  submitHealthData_def setModelParameters_def requestSimulation_def storeSimulationResult_def
  requestResultDecryption_eq decryptSimulationResult_eq updateGenomicModel_def
  updateCellularModel_def updateOrganModel_def

lemma with_data_fields:
  "patientData with_data 1 = \<lparr>patientId = 1, genomicData = [2, 3], cellularData = [], organData = [],
      biomarkers = [10, 20], timestamp = 1000\<rparr>"
  "genomicModelParams with_data = [4, 5, 6]"
  by (simp_all add: with_data_def run_Cons run_Nil transact_def commit_def entry_defs deployed_def)

text \<open>
  Claim C5. For a patient with submitted data (timestamp above zero) \<open>predictDiseaseRisk\<close>
  returns, and what it returns is the sum, started from the encryption of zero, of the
  products of model parameter and genomic value at the index positions below the smaller of
  the two lengths, in increasing order. No position at or beyond the end of either vector
  is read: such a read would make the result a panic. The second equation says the same
  with the two vectors zipped, which cuts the longer one.
\<close>

theorem predictDiseaseRisk_dot_product:
  assumes "0 < timestamp (patientData s p)"
  shows "predictDiseaseRisk L s p =
           Inr (foldl (\<lambda>acc k. FHE_add L acc
                          (FHE_mul L (genomicModelParams s ! k) (genomicData (patientData s p) ! k)))
                  (FHE_asEuint32 L 0)
                  [0 ..< min (length (genomicModelParams s)) (length (genomicData (patientData s p)))])
       \<and> predictDiseaseRisk L s p =
           Inr (foldl (\<lambda>acc (m, d). FHE_add L acc (FHE_mul L m d)) (FHE_asEuint32 L 0)
                  (zip (genomicModelParams s) (genomicData (patientData s p))))"
  using assms
  by (simp add: predictDiseaseRisk_def Let_def genomic_loop_foldl zip_as_indices foldl_map)

theorem predictDiseaseRisk_dot_product_witness:
  "0 < timestamp (patientData with_data 1)
   \<and> length (genomicData (patientData with_data 1)) < length (genomicModelParams with_data)
   \<and> predictDiseaseRisk plain_library with_data 1 = Inr 23"
proof -
  have h: "0 < timestamp (patientData with_data 1)"
    by (simp add: with_data_fields)
  from predictDiseaseRisk_dot_product [OF h, of plain_library] h show ?thesis
    by (simp add: with_data_fields plain_library_def)
qed

text \<open>
  Claim C6. For a patient with submitted data \<open>predictDiseaseRisk\<close> returns some \<open>risk\<close>, and
  \<open>predictDrugResponse\<close> returns \<open>risk\<close> plus the biomarker at \<open>drugIndex\<close> when the index is
  below the number of biomarkers, and \<open>risk\<close> itself, without an error, when it is not.
\<close>

theorem predictDrugResponse_adds_biomarker:
  assumes "0 < timestamp (patientData s p)"
  shows "\<exists>risk. predictDiseaseRisk L s p = Inr risk
           \<and> predictDrugResponse L s p drugIndex =
               Inr (if unat drugIndex < length (biomarkers (patientData s p))
                    then FHE_add L risk (biomarkers (patientData s p) ! unat drugIndex)
                    else risk)"
  using assms
  by (simp add: predictDiseaseRisk_def predictDrugResponse_def Let_def genomic_loop_foldl read_at_def)

theorem predictDrugResponse_adds_biomarker_witness:
  "0 < timestamp (patientData with_data 1)
   \<and> predictDiseaseRisk plain_library with_data 1 = Inr 23
   \<and> predictDrugResponse plain_library with_data 1 1 = Inr 43
   \<and> predictDrugResponse plain_library with_data 1 2 = Inr 23"
proof -
  have h: "0 < timestamp (patientData with_data 1)"
    by (simp add: with_data_fields)
  have r: "predictDiseaseRisk plain_library with_data 1 = Inr 23"
    by (simp add: predictDiseaseRisk_def genomic_loop_foldl with_data_fields plain_library_def)
  from predictDrugResponse_adds_biomarker [OF h, of plain_library 1]
       predictDrugResponse_adds_biomarker [OF h, of plain_library 2] h r
  show ?thesis
    by (simp add: with_data_fields plain_library_def)
qed

text \<open>
  Claim C10. \<open>getDecryptedSimulationResult\<close> returns in every state and for every patient:
  it hands back the three stored fields and checks nothing. On a freshly deployed contract
  it returns score 0, an empty vector and \<open>False\<close>, which is also what it returns right after
  \<open>storeSimulationResult\<close> for that patient; the other two getters revert on the freshly
  deployed contract.
\<close>

theorem getDecryptedSimulationResult_never_fails:
  "getDecryptedSimulationResult s p =
     Inr (clear_diseaseRiskScore (decryptedResults s p), clear_drugResponse (decryptedResults s p),
          isRevealed (decryptedResults s p))
   \<and> getDecryptedSimulationResult deployed p = Inr (0, [], False)
   \<and> getDecryptedSimulationResult (commit s (storeSimulationResult s p risk drs)) p = Inr (0, [], False)
   \<and> getEncryptedHealthData deployed p = Inl (Require ''Patient data not found'')
   \<and> getEncryptedSimulationResult deployed p = Inl (Require ''Simulation not complete'')"
  by (simp add: getDecryptedSimulationResult_def getEncryptedHealthData_def
      getEncryptedSimulationResult_def deployed_def zero_DecryptedResult_def
      zero_EncryptedHealthData_def zero_SimulationResult_def storeSimulationResult_def commit_def
      Let_def)


lemma simulated_fields:
  "simulationResults simulated 1 = \<lparr>diseaseRiskScore = 40, drugResponse = [41, 42], isComplete = True\<rparr>"
  "decryptedResults simulated 1 = zero_DecryptedResult"
  "requestToPatientId simulated = (\<lambda>_. 0)"
  by (simp_all add: simulated_def with_data_def run_Cons run_Nil transact_def commit_def entry_defs
      deployed_def zero_DecryptedResult_def)

lemma requested_eq:
  "requested = simulated\<lparr>requestToPatientId := (requestToPatientId simulated)(7 := 1)\<rparr>"
  by (simp add: requested_def run_Cons run_Nil transact_def commit_def entry_defs simulated_fields
      zero_DecryptedResult_def)

lemma revealed_eq:
  "revealed = requested\<lparr>decryptedResults := (decryptedResults requested)(1 :=
      \<lparr>clear_diseaseRiskScore = 9, clear_drugResponse = [8, 7], isRevealed = True\<rparr>)\<rparr>"
  by (simp add: revealed_def run_Cons run_Nil transact_def commit_def entry_defs requested_eq
      simulated_fields zero_DecryptedResult_def plain_library_def)

text \<open>
  Claim C1. Let \<open>requestResultDecryption\<close> have recorded \<open>reqId\<close> for patient \<open>p\<close>, and let a
  later call of \<open>decryptSimulationResult\<close> with \<open>reqId\<close>, in a state where \<open>reqId\<close> still has
  that entry, succeed on a cleartext that decodes to the non-empty array \<open>results\<close>. Then
  the decrypted record of \<open>p\<close> holds element 0 as the risk score, the elements from 1 on,
  in order, as the drug-response vector (so its length is one less than that of
  \<open>results\<close>), and is revealed. The request had flattened the risk score first and then
  the drug responses in stored order; so when \<open>results\<close> is the pointwise decryption of the
  ciphertexts of the request, the stored score is the decryption of the stored encrypted
  score and the stored vector the pointwise decryption of the stored encrypted vector.
\<close>

theorem decryptSimulationResult_writes_result:
  assumes request: "requestResultDecryption L s0 p reqId = Inr (s1, issued)"
    and kept: "requestToPatientId s reqId = requestToPatientId s1 reqId"
    and success: "decryptSimulationResult L s reqId cleartexts decryptionProof = Inr (s', evs)"
    and decoded: "abi_decode_uint32_array L cleartexts = Some results"
    and nonempty: "results \<noteq> []"
  shows "decryptedResults s' p =
           \<lparr>clear_diseaseRiskScore = results ! 0, clear_drugResponse = tl results, isRevealed = True\<rparr>
       \<and> length (clear_drugResponse (decryptedResults s' p)) = length results - 1
       \<and> (\<forall>i < length results - 1. clear_drugResponse (decryptedResults s' p) ! i = results ! (i + 1))
       \<and> issued = [DecryptionRequested
                     (FHE_toBytes32 L (diseaseRiskScore (simulationResults s0 p)) #
                      map (FHE_toBytes32 L) (drugResponse (simulationResults s0 p)))
                     decryptSimulationResult_selector]
       \<and> (\<forall>decrypt.
            results = map decrypt (FHE_toBytes32 L (diseaseRiskScore (simulationResults s0 p)) #
                                   map (FHE_toBytes32 L) (drugResponse (simulationResults s0 p)))
            \<longrightarrow> clear_diseaseRiskScore (decryptedResults s' p) =
                  decrypt (FHE_toBytes32 L (diseaseRiskScore (simulationResults s0 p)))
              \<and> clear_drugResponse (decryptedResults s' p) =
                  map (\<lambda>h. decrypt (FHE_toBytes32 L h)) (drugResponse (simulationResults s0 p)))"
proof -
  from request have s1: "s1 = s0\<lparr>requestToPatientId := (requestToPatientId s0)(reqId := p)\<rparr>"
    and issued: "issued = [DecryptionRequested
                     (FHE_toBytes32 L (diseaseRiskScore (simulationResults s0 p)) #
                      map (FHE_toBytes32 L) (drugResponse (simulationResults s0 p)))
                     decryptSimulationResult_selector]"
    by (auto simp: requestResultDecryption_eq split: if_splits)
  from s1 kept have pid: "requestToPatientId s reqId = p" by simp
  from nonempty obtain r0 rest where results: "results = r0 # rest" by (cases results) auto
  from success decoded pid results
  have written: "decryptedResults s' p =
      \<lparr>clear_diseaseRiskScore = r0, clear_drugResponse = rest, isRevealed = True\<rparr>"
    by (auto simp: decryptSimulationResult_eq split: if_splits)
  show ?thesis
    using written results issued by (auto simp: comp_def)
qed

theorem decryptSimulationResult_writes_result_witness:
  "requestResultDecryption plain_library simulated 1 7 =
     Inr (requested, [DecryptionRequested [40, 41, 42] decryptSimulationResult_selector])
   \<and> decryptSimulationResult plain_library requested 7 [9, 8, 7] [1] = Inr (revealed, [ResultRevealed 1])
   \<and> abi_decode_uint32_array plain_library [9, 8, 7] = Some [9, 8, 7]
   \<and> decryptedResults revealed 1 =
       \<lparr>clear_diseaseRiskScore = 9, clear_drugResponse = [8, 7], isRevealed = True\<rparr>"
proof -
  have request: "requestResultDecryption plain_library simulated 1 7 =
     Inr (requested, [DecryptionRequested [40, 41, 42] decryptSimulationResult_selector])"
    by (simp add: requestResultDecryption_eq simulated_fields requested_eq zero_DecryptedResult_def
        plain_library_def)
  have decoded: "abi_decode_uint32_array plain_library [9, 8, 7] = Some [9, 8, 7]"
    by (simp add: plain_library_def)
  have success: "decryptSimulationResult plain_library requested 7 [9, 8, 7] [1] =
      Inr (revealed, [ResultRevealed 1])"
    by (simp add: decryptSimulationResult_eq revealed_eq requested_eq simulated_fields
        zero_DecryptedResult_def plain_library_def)
  have nonempty: "[9, 8, 7 :: uint32] \<noteq> []" by simp
  from decryptSimulationResult_writes_result [OF request refl success decoded nonempty]
       request success decoded
  show ?thesis by simp
qed


text \<open>
  Claim C2. \<open>decryptSimulationResult\<close> reverts with \<open>Invalid request\<close> when the request id is
  mapped to no patient (the map holds zero), and with \<open>Already revealed\<close> when it is mapped
  to a patient whose decrypted result is revealed. In these two cases, and when the
  signature check fails, the call is an error, the committed storage is the storage
  before the call, and so is the map of decrypted results.
\<close>

theorem decryptSimulationResult_rejects_atomically:
  "(requestToPatientId s reqId = 0 \<longrightarrow>
      decryptSimulationResult L s reqId cleartexts decryptionProof = Inl (Require ''Invalid request''))
   \<and> (requestToPatientId s reqId \<noteq> 0
        \<and> isRevealed (decryptedResults s (requestToPatientId s reqId)) \<longrightarrow>
      decryptSimulationResult L s reqId cleartexts decryptionProof = Inl (Require ''Already revealed''))
   \<and> (requestToPatientId s reqId = 0
        \<or> isRevealed (decryptedResults s (requestToPatientId s reqId))
        \<or> \<not> FHE_checkSignatures L reqId cleartexts decryptionProof \<longrightarrow>
      (\<exists>e. decryptSimulationResult L s reqId cleartexts decryptionProof = Inl e)
      \<and> commit s (decryptSimulationResult L s reqId cleartexts decryptionProof) = s
      \<and> decryptedResults (transact L s (Call_decryptSimulationResult reqId cleartexts decryptionProof))
          = decryptedResults s)"
proof (intro conjI impI)
  assume "requestToPatientId s reqId = 0"
  then show "decryptSimulationResult L s reqId cleartexts decryptionProof =
      Inl (Require ''Invalid request'')"
    by (simp add: decryptSimulationResult_eq)
next
  assume "requestToPatientId s reqId \<noteq> 0
        \<and> isRevealed (decryptedResults s (requestToPatientId s reqId))"
  then show "decryptSimulationResult L s reqId cleartexts decryptionProof =
      Inl (Require ''Already revealed'')"
    by (simp add: decryptSimulationResult_eq)
next
  assume rejected: "requestToPatientId s reqId = 0
        \<or> isRevealed (decryptedResults s (requestToPatientId s reqId))
        \<or> \<not> FHE_checkSignatures L reqId cleartexts decryptionProof"
  then show reverts: "\<exists>e. decryptSimulationResult L s reqId cleartexts decryptionProof = Inl e"
    by (auto simp: decryptSimulationResult_eq)
  then show same: "commit s (decryptSimulationResult L s reqId cleartexts decryptionProof) = s"
    by (auto simp: commit_def)
  then show "decryptedResults (transact L s (Call_decryptSimulationResult reqId cleartexts decryptionProof))
      = decryptedResults s"
    by (simp add: transact_def)
qed

theorem decryptSimulationResult_rejects_atomically_witness:
  "requestToPatientId revealed 99 = 0
   \<and> decryptSimulationResult plain_library revealed 99 [9, 8, 7] [1] = Inl (Require ''Invalid request'')
   \<and> requestToPatientId revealed 7 \<noteq> 0
   \<and> isRevealed (decryptedResults revealed (requestToPatientId revealed 7))
   \<and> decryptSimulationResult plain_library revealed 7 [1, 2, 3] [1] = Inl (Require ''Already revealed'')
   \<and> commit revealed (decryptSimulationResult plain_library revealed 7 [1, 2, 3] [1]) = revealed
   \<and> \<not> FHE_checkSignatures plain_library 7 [9, 8, 7] []
   \<and> commit requested (decryptSimulationResult plain_library requested 7 [9, 8, 7] []) = requested"
proof -
  have unknown: "requestToPatientId revealed 99 = 0"
    by (simp add: revealed_eq requested_eq simulated_fields)
  have known: "requestToPatientId revealed 7 = 1"
    by (simp add: revealed_eq requested_eq simulated_fields)
  have shown: "isRevealed (decryptedResults revealed 1)"
    by (simp add: revealed_eq)
  have bad: "\<not> FHE_checkSignatures plain_library 7 [9, 8, 7] []"
    by (simp add: plain_library_def)
  from decryptSimulationResult_rejects_atomically [of revealed 99 plain_library "[9, 8, 7]" "[1]"]
       decryptSimulationResult_rejects_atomically [of revealed 7 plain_library "[1, 2, 3]" "[1]"]
       decryptSimulationResult_rejects_atomically [of requested 7 plain_library "[9, 8, 7]" "[]"]
       unknown known shown bad
  show ?thesis by (simp add: commit_def)
qed

text \<open>
  Claim C3. \<open>requestResultDecryption\<close> reverts with \<open>Simulation not complete\<close> when the
  simulation result of the patient is not complete, and with \<open>Already revealed\<close> when it is
  complete and the decrypted result is revealed; either way the storage, the decrypted
  results among it, is unchanged. When the result is complete and not revealed, the call
  issues exactly one decryption request, over one more ciphertext than there are drug
  responses, changes the storage only by mapping the returned request id to the patient,
  and that entry is then the patient.
\<close>

theorem requestResultDecryption_guarded:
  "(\<not> isComplete (simulationResults s p) \<longrightarrow>
      requestResultDecryption L s p reqId = Inl (Require ''Simulation not complete''))
   \<and> (isComplete (simulationResults s p) \<and> isRevealed (decryptedResults s p) \<longrightarrow>
      requestResultDecryption L s p reqId = Inl (Require ''Already revealed''))
   \<and> (\<not> isComplete (simulationResults s p) \<or> isRevealed (decryptedResults s p) \<longrightarrow>
      commit s (requestResultDecryption L s p reqId) = s
      \<and> decryptedResults (transact L s (Call_requestResultDecryption p reqId)) = decryptedResults s)
   \<and> (isComplete (simulationResults s p) \<and> \<not> isRevealed (decryptedResults s p) \<longrightarrow>
      (\<exists>ciphertexts.
         requestResultDecryption L s p reqId =
           Inr (s\<lparr>requestToPatientId := (requestToPatientId s)(reqId := p)\<rparr>,
                [DecryptionRequested ciphertexts decryptSimulationResult_selector])
         \<and> length ciphertexts = 1 + length (drugResponse (simulationResults s p)))
      \<and> requestToPatientId (commit s (requestResultDecryption L s p reqId)) reqId = p)"
proof (intro conjI impI)
  assume "\<not> isComplete (simulationResults s p)"
  then show "requestResultDecryption L s p reqId = Inl (Require ''Simulation not complete'')"
    by (simp add: requestResultDecryption_eq)
next
  assume "isComplete (simulationResults s p) \<and> isRevealed (decryptedResults s p)"
  then show "requestResultDecryption L s p reqId = Inl (Require ''Already revealed'')"
    by (simp add: requestResultDecryption_eq)
next
  assume "\<not> isComplete (simulationResults s p) \<or> isRevealed (decryptedResults s p)"
  then have "\<exists>e. requestResultDecryption L s p reqId = Inl e"
    by (auto simp: requestResultDecryption_eq)
  then show same: "commit s (requestResultDecryption L s p reqId) = s"
    by (auto simp: commit_def)
  then show "decryptedResults (transact L s (Call_requestResultDecryption p reqId)) = decryptedResults s"
    by (simp add: transact_def)
next
  assume ready: "isComplete (simulationResults s p) \<and> \<not> isRevealed (decryptedResults s p)"
  let ?ciphertexts = "FHE_toBytes32 L (diseaseRiskScore (simulationResults s p)) #
                      map (FHE_toBytes32 L) (drugResponse (simulationResults s p))"
  from ready have issued: "requestResultDecryption L s p reqId =
      Inr (s\<lparr>requestToPatientId := (requestToPatientId s)(reqId := p)\<rparr>,
           [DecryptionRequested ?ciphertexts decryptSimulationResult_selector])"
    by (simp add: requestResultDecryption_eq)
  moreover have "length ?ciphertexts = 1 + length (drugResponse (simulationResults s p))"
    by simp
  ultimately show "\<exists>ciphertexts.
         requestResultDecryption L s p reqId =
           Inr (s\<lparr>requestToPatientId := (requestToPatientId s)(reqId := p)\<rparr>,
                [DecryptionRequested ciphertexts decryptSimulationResult_selector])
         \<and> length ciphertexts = 1 + length (drugResponse (simulationResults s p))"
    by blast
  from issued show "requestToPatientId (commit s (requestResultDecryption L s p reqId)) reqId = p"
    by (simp add: commit_def)
qed

theorem requestResultDecryption_guarded_witness:
  "\<not> isComplete (simulationResults with_data 1)
   \<and> requestResultDecryption plain_library with_data 1 7 = Inl (Require ''Simulation not complete'')
   \<and> commit with_data (requestResultDecryption plain_library with_data 1 7) = with_data
   \<and> isComplete (simulationResults revealed 1) \<and> isRevealed (decryptedResults revealed 1)
   \<and> requestResultDecryption plain_library revealed 1 8 = Inl (Require ''Already revealed'')
   \<and> isComplete (simulationResults simulated 1) \<and> \<not> isRevealed (decryptedResults simulated 1)
   \<and> requestToPatientId (commit simulated (requestResultDecryption plain_library simulated 1 7)) 7 = 1"
proof -
  have a: "\<not> isComplete (simulationResults with_data 1)"
    by (simp add: with_data_def run_Cons run_Nil transact_def commit_def entry_defs deployed_def
        zero_SimulationResult_def)
  have b: "isComplete (simulationResults revealed 1)" "isRevealed (decryptedResults revealed 1)"
    by (simp_all add: revealed_eq requested_eq simulated_fields)
  have c: "isComplete (simulationResults simulated 1)" "\<not> isRevealed (decryptedResults simulated 1)"
    by (simp_all add: simulated_fields zero_DecryptedResult_def)
  from requestResultDecryption_guarded [of with_data 1 plain_library 7]
       requestResultDecryption_guarded [of revealed 1 plain_library 8]
       requestResultDecryption_guarded [of simulated 1 plain_library 7]
       a b c
  show ?thesis by (simp add: commit_def)
qed

lemma transact_requestToPatientId:
  "\<not> binds_request r c \<Longrightarrow> requestToPatientId (transact L s c) r = requestToPatientId s r"
  by (cases c) (simp_all add: transact_def commit_def entry_defs split: option.split list.split)

lemma run_requestToPatientId:
  "list_all (\<lambda>c. \<not> binds_request r c) cs \<Longrightarrow>
   requestToPatientId (run L s cs) r = requestToPatientId s r"
  by (induction cs arbitrary: s) (simp_all add: run_Nil run_Cons transact_requestToPatientId)

lemma transact_patient_zero:
  "\<not> isRevealed (decryptedResults s 0) \<Longrightarrow> \<not> isRevealed (decryptedResults (transact L s c) 0)"
  by (cases c) (simp_all add: transact_def commit_def entry_defs split: option.split list.split)

lemma run_patient_zero:
  "\<not> isRevealed (decryptedResults s 0) \<Longrightarrow> \<not> isRevealed (decryptedResults (run L s cs) 0)"
  by (induction cs arbitrary: s) (simp_all add: run_Nil run_Cons transact_patient_zero)

lemma transact_revealed_stable:
  "isRevealed (decryptedResults s p) \<Longrightarrow> \<not> stores_result_for p c \<Longrightarrow>
   decryptedResults (transact L s c) p = decryptedResults s p"
  by (cases c) (auto simp: transact_def commit_def entry_defs split: option.split list.split)

lemma run_revealed_stable:
  "isRevealed (decryptedResults s p) \<Longrightarrow> list_all (\<lambda>c. \<not> stores_result_for p c) cs \<Longrightarrow>
   decryptedResults (run L s cs) p = decryptedResults s p"
proof (induction cs arbitrary: s)
  case Nil
  then show ?case by (simp add: run_Nil)
next
  case (Cons c cs)
  from Cons.prems have step: "decryptedResults (transact L s c) p = decryptedResults s p"
    by (simp add: transact_revealed_stable)
  with Cons.prems have "isRevealed (decryptedResults (transact L s c) p)" by simp
  with Cons.prems Cons.IH [of "transact L s c"] step show ?case
    by (simp add: run_Cons)
qed

text \<open>
  Claim C9. When \<open>requestResultDecryption\<close> succeeds for patient 0, the request id it records
  maps to 0, and from then on, whatever calls follow that do not bind this id again, the
  callback for it reverts with \<open>Invalid request\<close>. The callback reverts with that message
  exactly when the request id maps to 0. Hence in no history of the contract is the
  decrypted result of patient 0 revealed.
\<close>

theorem patient_zero_cannot_be_revealed:
  "(requestResultDecryption L s 0 reqId = Inr (s', issued) \<longrightarrow>
      requestToPatientId s' reqId = 0
      \<and> (\<forall>cs. list_all (\<lambda>c. \<not> binds_request reqId c) cs \<longrightarrow>
            decryptSimulationResult L (run L s' cs) reqId cleartexts decryptionProof =
              Inl (Require ''Invalid request'')))
   \<and> (decryptSimulationResult L s reqId cleartexts decryptionProof = Inl (Require ''Invalid request'')
        \<longleftrightarrow> requestToPatientId s reqId = 0)
   \<and> \<not> isRevealed (decryptedResults (run L deployed cs) 0)"
proof (intro conjI impI allI)
  assume "requestResultDecryption L s 0 reqId = Inr (s', issued)"
  then show zero: "requestToPatientId s' reqId = 0"
    by (auto simp: requestResultDecryption_eq split: if_splits)
  fix cs'
  assume "list_all (\<lambda>c. \<not> binds_request reqId c) cs'"
  then have "requestToPatientId (run L s' cs') reqId = 0"
    using zero by (simp add: run_requestToPatientId)
  then show "decryptSimulationResult L (run L s' cs') reqId cleartexts decryptionProof =
      Inl (Require ''Invalid request'')"
    by (simp add: decryptSimulationResult_eq)
next
  show "decryptSimulationResult L s reqId cleartexts decryptionProof = Inl (Require ''Invalid request'')
        \<longleftrightarrow> requestToPatientId s reqId = 0"
    by (simp add: decryptSimulationResult_eq split: option.split list.split)
next
  show "\<not> isRevealed (decryptedResults (run L deployed cs) 0)"
    by (rule run_patient_zero) (simp add: deployed_def zero_DecryptedResult_def)
qed

text \<open>
  Claim C7. A call that does not bind request id \<open>reqId\<close> leaves its entry as it is, and the
  one function that writes the map, \<open>requestResultDecryption\<close>, either reverts or sets the
  entry of the returned id to its patient: nothing removes an entry. A successful callback
  leaves the whole map unchanged, so afterwards the id still resolves to its patient and a
  replay of the callback reverts with \<open>Already revealed\<close>, the second guard, having passed
  the first. That guard is all that blocks the replay: once \<open>storeSimulationResult\<close> has
  reset the patient's record, a replay with the stale id whose proof verifies and whose
  cleartext decodes to a non-empty array succeeds and writes the record.
\<close>

theorem requestToPatientId_never_cleared:
  "(\<not> binds_request reqId c \<longrightarrow>
      requestToPatientId (transact L s c) reqId = requestToPatientId s reqId)
   \<and> (requestToPatientId (transact L s (Call_requestResultDecryption p reqId)) = requestToPatientId s
        \<or> requestToPatientId (transact L s (Call_requestResultDecryption p reqId)) =
            (requestToPatientId s)(reqId := p))
   \<and> (decryptSimulationResult L s reqId cleartexts decryptionProof = Inr (s', evs) \<longrightarrow>
        requestToPatientId s' = requestToPatientId s
        \<and> requestToPatientId s' reqId \<noteq> 0
        \<and> decryptSimulationResult L s' reqId cleartexts' decryptionProof' =
            Inl (Require ''Already revealed'')
        \<and> (FHE_checkSignatures L reqId cleartexts' decryptionProof'
            \<and> abi_decode_uint32_array L cleartexts' = Some (r0 # rest) \<longrightarrow>
            (\<exists>s'' evs''.
               decryptSimulationResult L
                 (transact L s' (Call_storeSimulationResult (requestToPatientId s' reqId) risk drs))
                 reqId cleartexts' decryptionProof' = Inr (s'', evs'')
               \<and> decryptedResults s'' (requestToPatientId s' reqId) =
                   \<lparr>clear_diseaseRiskScore = r0, clear_drugResponse = rest, isRevealed = True\<rparr>)))"
proof (intro conjI impI)
  assume "\<not> binds_request reqId c"
  then show "requestToPatientId (transact L s c) reqId = requestToPatientId s reqId"
    by (rule transact_requestToPatientId)
next
  show "requestToPatientId (transact L s (Call_requestResultDecryption p reqId)) = requestToPatientId s
        \<or> requestToPatientId (transact L s (Call_requestResultDecryption p reqId)) =
            (requestToPatientId s)(reqId := p)"
    by (simp add: transact_def commit_def requestResultDecryption_eq)
next
  assume ok: "decryptSimulationResult L s reqId cleartexts decryptionProof = Inr (s', evs)"
  then obtain x xs where s': "s' = s\<lparr>decryptedResults := (decryptedResults s)(requestToPatientId s reqId :=
        \<lparr>clear_diseaseRiskScore = x, clear_drugResponse = xs, isRevealed = True\<rparr>)\<rparr>"
    and known: "requestToPatientId s reqId \<noteq> 0"
    by (auto simp: decryptSimulationResult_eq split: if_splits option.splits list.splits)
  show "requestToPatientId s' = requestToPatientId s"
    by (simp add: s')
  show "requestToPatientId s' reqId \<noteq> 0"
    using known by (simp add: s')
  show "decryptSimulationResult L s' reqId cleartexts' decryptionProof' =
            Inl (Require ''Already revealed'')"
    using known by (simp add: s' decryptSimulationResult_eq)
  assume "FHE_checkSignatures L reqId cleartexts' decryptionProof'
            \<and> abi_decode_uint32_array L cleartexts' = Some (r0 # rest)"
  then show "\<exists>s'' evs''.
               decryptSimulationResult L
                 (transact L s' (Call_storeSimulationResult (requestToPatientId s' reqId) risk drs))
                 reqId cleartexts' decryptionProof' = Inr (s'', evs'')
               \<and> decryptedResults s'' (requestToPatientId s' reqId) =
                   \<lparr>clear_diseaseRiskScore = r0, clear_drugResponse = rest, isRevealed = True\<rparr>"
    using known
    by (simp add: s' decryptSimulationResult_eq transact_def commit_def storeSimulationResult_def)
qed

text \<open>
  Claim C4, amended. Once the decrypted result of patient \<open>p\<close> is revealed, no sequence of
  calls without a \<open>storeSimulationResult\<close> for \<open>p\<close> changes the decrypted record of \<open>p\<close>;
  a \<open>storeSimulationResult\<close> for \<open>p\<close> resets the record to score 0, the empty vector and
  unrevealed.
\<close>

theorem revealed_result_kept_until_next_store:
  "(isRevealed (decryptedResults s p) \<and> list_all (\<lambda>c. \<not> stores_result_for p c) cs \<longrightarrow>
      decryptedResults (run L s cs) p = decryptedResults s p)
   \<and> decryptedResults (transact L s (Call_storeSimulationResult p risk drs)) p =
       \<lparr>clear_diseaseRiskScore = 0, clear_drugResponse = [], isRevealed = False\<rparr>"
proof (intro conjI impI)
  assume "isRevealed (decryptedResults s p) \<and> list_all (\<lambda>c. \<not> stores_result_for p c) cs"
  then show "decryptedResults (run L s cs) p = decryptedResults s p"
    by (simp add: run_revealed_stable)
next
  show "decryptedResults (transact L s (Call_storeSimulationResult p risk drs)) p =
       \<lparr>clear_diseaseRiskScore = 0, clear_drugResponse = [], isRevealed = False\<rparr>"
    by (simp add: transact_def commit_def storeSimulationResult_def)
qed


theorem patient_zero_cannot_be_revealed_witness:
  "requestResultDecryption plain_library zero_simulated 0 5 =
     Inr (zero_requested, [DecryptionRequested [40, 41] decryptSimulationResult_selector])
   \<and> requestToPatientId zero_requested 5 = 0
   \<and> list_all (\<lambda>c. \<not> binds_request 5 c)
        [Call_requestResultDecryption 0 6, Call_storeSimulationResult 0 50 [51]]
   \<and> decryptSimulationResult plain_library
        (run plain_library zero_requested
           [Call_requestResultDecryption 0 6, Call_storeSimulationResult 0 50 [51]]) 5 [9, 8] [1] =
       Inl (Require ''Invalid request'')
   \<and> \<not> isRevealed (decryptedResults (run plain_library deployed
        [Call_storeSimulationResult 0 40 [41], Call_requestResultDecryption 0 5,
         Call_decryptSimulationResult 5 [9, 8] [1]]) 0)"
proof -
  have sim: "isComplete (simulationResults zero_simulated 0)"
    "\<not> isRevealed (decryptedResults zero_simulated 0)"
    "diseaseRiskScore (simulationResults zero_simulated 0) = 40"
    "drugResponse (simulationResults zero_simulated 0) = [41]"
    by (simp_all add: zero_simulated_def run_Cons run_Nil transact_def commit_def entry_defs)
  have request: "requestResultDecryption plain_library zero_simulated 0 5 =
     Inr (zero_requested, [DecryptionRequested [40, 41] decryptSimulationResult_selector])"
    by (simp add: zero_requested_def run_Cons run_Nil transact_def commit_def
        requestResultDecryption_eq sim plain_library_def)
  have others: "list_all (\<lambda>c. \<not> binds_request 5 c)
        [Call_requestResultDecryption 0 6, Call_storeSimulationResult 0 50 [51]]"
    by simp
  from patient_zero_cannot_be_revealed [where L = plain_library and s = zero_simulated
         and reqId = 5 and s' = zero_requested
         and issued = "[DecryptionRequested [40, 41] decryptSimulationResult_selector]"
         and cleartexts = "[9, 8]" and decryptionProof = "[1]"
         and cs = "[Call_storeSimulationResult 0 40 [41], Call_requestResultDecryption 0 5,
                    Call_decryptSimulationResult 5 [9, 8] [1]]"]
       request others
  show ?thesis by simp
qed

theorem requestToPatientId_never_cleared_witness:
  "\<not> binds_request 7 (Call_decryptSimulationResult 7 [9, 8, 7] [1])
   \<and> requestToPatientId (transact plain_library requested (Call_decryptSimulationResult 7 [9, 8, 7] [1])) 7 = 1
   \<and> decryptSimulationResult plain_library requested 7 [9, 8, 7] [1] = Inr (revealed, [ResultRevealed 1])
   \<and> requestToPatientId revealed 7 = 1
   \<and> decryptSimulationResult plain_library revealed 7 [1, 2, 3] [1] = Inl (Require ''Already revealed'')
   \<and> FHE_checkSignatures plain_library 7 [1, 2, 3] [1]
   \<and> abi_decode_uint32_array plain_library [1, 2, 3] = Some [1, 2, 3]
   \<and> (\<exists>s'' evs''.
        decryptSimulationResult plain_library
          (transact plain_library revealed (Call_storeSimulationResult 1 50 [51, 52])) 7 [1, 2, 3] [1] =
          Inr (s'', evs'')
        \<and> decryptedResults s'' 1 =
            \<lparr>clear_diseaseRiskScore = 1, clear_drugResponse = [2, 3], isRevealed = True\<rparr>)"
proof -
  have success: "decryptSimulationResult plain_library requested 7 [9, 8, 7] [1] =
      Inr (revealed, [ResultRevealed 1])"
    by (simp add: decryptSimulationResult_eq revealed_eq requested_eq simulated_fields
        zero_DecryptedResult_def plain_library_def)
  have entry: "requestToPatientId requested 7 = 1" "requestToPatientId revealed 7 = 1"
    by (simp_all add: revealed_eq requested_eq)
  have lib: "FHE_checkSignatures plain_library 7 [1, 2, 3] [1]"
    "abi_decode_uint32_array plain_library [1, 2, 3] = Some [1, 2, 3]"
    by (simp_all add: plain_library_def)
  from requestToPatientId_never_cleared [where L = plain_library and s = requested and reqId = 7
         and c = "Call_decryptSimulationResult 7 [9, 8, 7] [1]" and p = 1
         and cleartexts = "[9, 8, 7]" and decryptionProof = "[1]" and s' = revealed
         and evs = "[ResultRevealed 1]" and cleartexts' = "[1, 2, 3]" and decryptionProof' = "[1]"
         and ?r0.0 = 1 and rest = "[2, 3]" and risk = 50 and drs = "[51, 52]"]
       success entry lib
  show ?thesis by simp
qed

theorem revealed_result_kept_until_next_store_witness:
  "isRevealed (decryptedResults revealed 1)
   \<and> list_all (\<lambda>c. \<not> stores_result_for 1 c)
        [Call_requestResultDecryption 1 8, Call_decryptSimulationResult 7 [1, 2, 3] [1],
         Call_storeSimulationResult 2 50 [51], Call_updateGenomicModel []]
   \<and> decryptedResults (run plain_library revealed
        [Call_requestResultDecryption 1 8, Call_decryptSimulationResult 7 [1, 2, 3] [1],
         Call_storeSimulationResult 2 50 [51], Call_updateGenomicModel []]) 1 =
       \<lparr>clear_diseaseRiskScore = 9, clear_drugResponse = [8, 7], isRevealed = True\<rparr>"
proof -
  have shown: "decryptedResults revealed 1 =
      \<lparr>clear_diseaseRiskScore = 9, clear_drugResponse = [8, 7], isRevealed = True\<rparr>"
    by (simp add: revealed_eq)
  have others: "list_all (\<lambda>c. \<not> stores_result_for 1 c)
        [Call_requestResultDecryption 1 8, Call_decryptSimulationResult 7 [1, 2, 3] [1],
         Call_storeSimulationResult 2 50 [51], Call_updateGenomicModel []]"
    by simp
  from revealed_result_kept_until_next_store [where L = plain_library and s = revealed and p = 1
         and cs = "[Call_requestResultDecryption 1 8, Call_decryptSimulationResult 7 [1, 2, 3] [1],
                    Call_storeSimulationResult 2 50 [51], Call_updateGenomicModel []]"]
       shown others
  show ?thesis by simp
qed

text \<open>
  Claim C4 as stated fails. In the state reached by the five calls below the result of
  patient 1 is revealed as 9 and [8, 7]. One more \<open>storeSimulationResult\<close> for patient 1
  overwrites the record with the empty one, and a further request and callback populate it
  a second time, with 3 and [4].
\<close>

theorem revealed_result_overwritten_counterexample:
  "revealed = run plain_library deployed
     [Call_submitHealthData 1000 1 [2, 3] [] [] [10, 20], Call_setModelParameters [4, 5, 6] [] [],
      Call_storeSimulationResult 1 40 [41, 42], Call_requestResultDecryption 1 7,
      Call_decryptSimulationResult 7 [9, 8, 7] [1]]
   \<and> decryptedResults revealed 1 =
       \<lparr>clear_diseaseRiskScore = 9, clear_drugResponse = [8, 7], isRevealed = True\<rparr>
   \<and> decryptedResults (run plain_library revealed [Call_storeSimulationResult 1 50 [51]]) 1 =
       \<lparr>clear_diseaseRiskScore = 0, clear_drugResponse = [], isRevealed = False\<rparr>
   \<and> decryptedResults (run plain_library revealed
        [Call_storeSimulationResult 1 50 [51], Call_requestResultDecryption 1 8,
         Call_decryptSimulationResult 8 [3, 4] [1]]) 1 =
       \<lparr>clear_diseaseRiskScore = 3, clear_drugResponse = [4], isRevealed = True\<rparr>"
proof (intro conjI)
  show "revealed = run plain_library deployed
     [Call_submitHealthData 1000 1 [2, 3] [] [] [10, 20], Call_setModelParameters [4, 5, 6] [] [],
      Call_storeSimulationResult 1 40 [41, 42], Call_requestResultDecryption 1 7,
      Call_decryptSimulationResult 7 [9, 8, 7] [1]]"
    by (simp add: revealed_def requested_def simulated_def with_data_def run_Cons run_Nil)
  show "decryptedResults revealed 1 =
       \<lparr>clear_diseaseRiskScore = 9, clear_drugResponse = [8, 7], isRevealed = True\<rparr>"
    by (simp add: revealed_eq)
  show "decryptedResults (run plain_library revealed [Call_storeSimulationResult 1 50 [51]]) 1 =
       \<lparr>clear_diseaseRiskScore = 0, clear_drugResponse = [], isRevealed = False\<rparr>"
    by (simp add: run_Cons run_Nil transact_def commit_def storeSimulationResult_def)
  show "decryptedResults (run plain_library revealed
        [Call_storeSimulationResult 1 50 [51], Call_requestResultDecryption 1 8,
         Call_decryptSimulationResult 8 [3, 4] [1]]) 1 =
       \<lparr>clear_diseaseRiskScore = 3, clear_drugResponse = [4], isRevealed = True\<rparr>"
    by (simp add: run_Cons run_Nil transact_def commit_def entry_defs plain_library_def)
qed

section \<open>The twin life cycle in the front end\<close>

lemma decimal_nonempty: "decimal n \<noteq> []"
  by (subst decimal.simps) simp

lemma digit_char_not_k: "d < 10 \<Longrightarrow> digit_char d \<noteq> CHR ''k''"
proof -
  assume "d < 10"
  then have "d \<in> {0, 1, 2, 3, 4, 5, 6, 7, 8, 9}" by auto
  then show ?thesis by (auto simp: digit_char_def)
qed

lemma decimal_hd: "hd (decimal n) \<noteq> CHR ''k''"
proof (induction n rule: decimal.induct)
  case (1 n)
  show ?case
  proof (cases "n < 10")
    case True
    then show ?thesis by (subst decimal.simps) (simp add: digit_char_not_k)
  next
    case False
    with "1.IH" show ?thesis
      by (subst decimal.simps) (simp add: decimal_nonempty)
  qed
qed

lemma twin_key_not_index: "''twin_'' @ decimal n @ ''-'' @ suffix \<noteq> ''twin_keys''"
proof
  assume "''twin_'' @ decimal n @ ''-'' @ suffix = ''twin_keys''"
  then have "decimal n @ ''-'' @ suffix = ''keys''" by simp
  then have "hd (decimal n @ ''-'' @ suffix) = CHR ''k''" by simp
  then show False using decimal_hd [of n] decimal_nonempty [of n] by simp
qed



lemma twin_key_not_index': "decimal n @ CHR ''-'' # suffix \<noteq> ''keys''"
  using twin_key_not_index [of n suffix] by simp

lemma submitTwin_stores_twin:
  assumes created: "submitTwin B st0 newTwinData now_id suffix now_stamp = (st1, Succeeded msg)"
    and b64: "btoa B (JSON_stringify B (form_json newTwinData)) = Some b64"
  shows "getData st1 (''twin_'' @ decimal now_id @ ''-'' @ suffix) =
           toUtf8Bytes B (JSON_stringify B
             (twin_record (''FHE-'' @ b64) (int (now_stamp div 1000)) (account B)
                (scale newTwinData) ''pending''))"
  using created b64 twin_key_not_index' [of now_id suffix]
  by (auto simp: submitTwin_def Let_def getData_def setData_def
      split: if_splits option.splits json.splits)

text \<open>
  Claim C8. Let \<open>submitTwin\<close> succeed for a form with scale \<open>gene\<close>; the record it stores
  under the twin's key is the serialised object with status \<open>pending\<close>. Let the runtime
  read that serialisation back as the same object, and let \<open>activateTwin\<close> succeed for the
  twin's id on a store that still holds the record under that key. Then the record written
  back under the same key is the serialisation of the object with the same data, timestamp,
  owner and scale and with status \<open>active\<close>, and no other key of the store is changed.
\<close>

theorem activateTwin_after_submitTwin:
  assumes gene: "scale newTwinData = ''gene''"
    and created: "submitTwin B st0 newTwinData now_id suffix now_stamp = (st1, Succeeded msg1)"
    and b64: "btoa B (JSON_stringify B (form_json newTwinData)) = Some b64"
    and uncontended: "getData st (''twin_'' @ decimal now_id @ ''-'' @ suffix) =
                      getData st1 (''twin_'' @ decimal now_id @ ''-'' @ suffix)"
    and utf8: "toUtf8String B (toUtf8Bytes B (JSON_stringify B
                 (twin_record (''FHE-'' @ b64) (int (now_stamp div 1000)) (account B) ''gene'' ''pending'')))
               = Some (JSON_stringify B
                 (twin_record (''FHE-'' @ b64) (int (now_stamp div 1000)) (account B) ''gene'' ''pending''))"
    and parses: "JSON_parse B (JSON_stringify B
                 (twin_record (''FHE-'' @ b64) (int (now_stamp div 1000)) (account B) ''gene'' ''pending''))
               = Some (twin_record (''FHE-'' @ b64) (int (now_stamp div 1000)) (account B) ''gene'' ''pending'')"
    and activated: "activateTwin B st (decimal now_id @ ''-'' @ suffix) = (st2, Succeeded msg2)"
  shows "getData st1 (''twin_'' @ decimal now_id @ ''-'' @ suffix) =
           toUtf8Bytes B (JSON_stringify B
             (twin_record (''FHE-'' @ b64) (int (now_stamp div 1000)) (account B) ''gene'' ''pending''))
       \<and> getData st2 (''twin_'' @ decimal now_id @ ''-'' @ suffix) =
           toUtf8Bytes B (JSON_stringify B
             (twin_record (''FHE-'' @ b64) (int (now_stamp div 1000)) (account B) ''gene'' ''active''))
       \<and> (\<forall>key. key \<noteq> ''twin_'' @ decimal now_id @ ''-'' @ suffix \<longrightarrow> getData st2 key = getData st key)"
proof -
  let ?key = "''twin_'' @ decimal now_id @ ''-'' @ suffix"
  let ?stored = "twin_record (''FHE-'' @ b64) (int (now_stamp div 1000)) (account B) ''gene'' ''pending''"
  have stored: "getData st1 ?key = toUtf8Bytes B (JSON_stringify B ?stored)"
    using submitTwin_stores_twin [OF created b64] gene by simp
  have patched: "JObj (AList.update ''status'' (JStr ''active'') (spread ?stored)) =
      twin_record (''FHE-'' @ b64) (int (now_stamp div 1000)) (account B) ''gene'' ''active''"
    by (simp add: twin_record_def)
  from uncontended stored have read: "getData st ?key = toUtf8Bytes B (JSON_stringify B ?stored)"
    by simp
  from activated have st2: "st2 = setData st ?key (toUtf8Bytes B (JSON_stringify B
      (twin_record (''FHE-'' @ b64) (int (now_stamp div 1000)) (account B) ''gene'' ''active'')))"
    using read utf8 parses patched
    by (simp add: activateTwin_def Let_def split: if_splits)
  show ?thesis
    using stored by (simp add: st2 getData_def setData_def)
qed

lemma utf8_roundtrip:
  "map ((\<lambda>b. char_of (unat b)) \<circ> (\<lambda>c. of_nat (of_char c) :: 8 word)) s = s"
proof -
  have "char_of (unat (of_nat (of_char c) :: 8 word)) = c" for c :: char
    by (simp add: unat_of_nat)
  then show ?thesis by (simp add: comp_def)
qed


lemma compact_json_twin_record_nonempty: "compact_json (twin_record d ts own sc status) \<noteq> []"
  by (simp add: twin_record_def)

lemma example_decimal: "decimal 1700000000123 = ''1700000000123''"
  by (simp add: decimal.simps digit_char_def)

theorem activateTwin_after_submitTwin_witness:
  "scale example_form = ''gene''
   \<and> submitTwin test_browser empty_store example_form 1700000000123 ''k3j9x2a'' 1700000000456 =
       (example_created, Succeeded ''Encrypted health data submitted securely!'')
   \<and> activateTwin test_browser example_created ''1700000000123-k3j9x2a'' =
       (example_activated, Succeeded ''FHE activation completed successfully!'')
   \<and> getData example_created ''twin_1700000000123-k3j9x2a'' =
       toUtf8Bytes test_browser (compact_json
         (twin_record (''FHE-'' @ compact_json (form_json example_form)) 1700000000 ''0xA11CE''
            ''gene'' ''pending''))
   \<and> getData example_activated ''twin_1700000000123-k3j9x2a'' =
       toUtf8Bytes test_browser (compact_json
         (twin_record (''FHE-'' @ compact_json (form_json example_form)) 1700000000 ''0xA11CE''
            ''gene'' ''active''))"
proof -
  let ?stored = "twin_record (''FHE-'' @ compact_json (form_json example_form)) 1700000000 ''0xA11CE''
            ''gene'' ''pending''"
  have gene: "scale example_form = ''gene''"
    by (simp add: example_form_def)
  have b64: "btoa test_browser (JSON_stringify test_browser (form_json example_form)) =
      Some (compact_json (form_json example_form))"
    by (simp add: test_browser_def)
  have "snd (submitTwin test_browser empty_store example_form 1700000000123 ''k3j9x2a'' 1700000000456) =
      Succeeded ''Encrypted health data submitted securely!''"
    using twin_key_not_index' [of 1700000000123 "''k3j9x2a''"]
    by (simp add: submitTwin_def Let_def test_browser_def getData_def setData_def empty_store_def)
  then have created: "submitTwin test_browser empty_store example_form 1700000000123 ''k3j9x2a'' 1700000000456 =
       (example_created, Succeeded ''Encrypted health data submitted securely!'')"
    by (simp add: example_created_def prod_eq_iff)
  have stored: "getData example_created (''twin_'' @ decimal 1700000000123 @ ''-'' @ ''k3j9x2a'') =
      toUtf8Bytes test_browser (JSON_stringify test_browser ?stored)"
    using submitTwin_stores_twin [OF created b64] gene by (simp add: test_browser_def)
  have utf8: "toUtf8String test_browser (toUtf8Bytes test_browser (JSON_stringify test_browser ?stored)) =
      Some (JSON_stringify test_browser ?stored)"
    by (simp add: test_browser_def utf8_roundtrip)
  have parses: "JSON_parse test_browser (JSON_stringify test_browser ?stored) = Some ?stored"
    by (simp add: test_browser_def parse_known_def)
  have "snd (activateTwin test_browser example_created (decimal 1700000000123 @ ''-'' @ ''k3j9x2a'')) =
      Succeeded ''FHE activation completed successfully!''"
    using stored utf8 parses compact_json_twin_record_nonempty
    by (simp add: activateTwin_def Let_def test_browser_def)
  then have activated: "activateTwin test_browser example_created (decimal 1700000000123 @ ''-'' @ ''k3j9x2a'') =
       (example_activated, Succeeded ''FHE activation completed successfully!'')"
    by (simp add: example_activated_def prod_eq_iff example_decimal)
  have account: "account test_browser = ''0xA11CE''" "JSON_stringify test_browser = compact_json"
    by (simp_all add: test_browser_def)
  have stamp: "int (1700000000456 div 1000) = 1700000000"
    by simp
  from activateTwin_after_submitTwin [OF gene created b64 refl, unfolded account stamp,
         OF utf8 [unfolded account] parses [unfolded account] activated]
       gene created activated
  show ?thesis
    by (simp add: example_decimal account)
qed

end
